theory Spec2Isabelle
  imports Complex_Main
begin

section \<open>The news encoder of \<^verbatim>\<open>src/model/news_encoder.py\<close>\<close>

text \<open>
  \<^verbatim>\<open>NewsEncoder\<close> is a PyTorch module. Its own code is control flow around calls into the
  framework: which sub-modules \<^verbatim>\<open>__init__\<close> builds, and in which order \<^verbatim>\<open>forward\<close> calls
  them. The embedding keeps that control flow and takes the framework as a parameter:
  \<^item> a constructed sub-module is a value of \<open>module\<close>, holding the arguments it was built with;
    its learned weights live in the framework and are addressed by the attribute name;
  \<^item> what a constructor of the framework raises on its arguments is the parameter \<open>ctor\<close> of
    \<^verbatim>\<open>__init__\<close>, what \<^verbatim>\<open>init_weights\<close> raises is its parameter \<open>iw\<close>, and what a call of the
    framework does is the parameter \<open>fw\<close> of \<^verbatim>\<open>forward\<close>;
  \<^item> \<^verbatim>\<open>self\<close> after \<^verbatim>\<open>__init__\<close> is the record \<open>encoder\<close>; an attribute that only some
    configurations assign is an \<open>option\<close>, and reading it while unassigned raises
    \<^verbatim>\<open>AttributeError\<close>;
  \<^item> every \<^verbatim>\<open>assert\<close> and every exception is a value \<open>Inl err\<close>;
  \<^item> sizes are natural numbers.
\<close>

subsection \<open>Errors, modules, configuration\<close>

datatype error =
    AssertionError
  | TypeError
  | AttributeError
  | ValueError
  | IndexError
  | RuntimeError
  | ZeroDivisionError

text \<open>
  Of \<^verbatim>\<open>RobertaConfig\<close> the source reads \<^verbatim>\<open>hidden_size\<close> only. The language model itself
  reads the other three: the number of attention heads when it is constructed, the size of
  its position table and the padding index when it is called.
\<close>

record config =
  hidden_size :: nat
  num_attention_heads :: nat
  max_position_embeddings :: nat
  pad_token_id :: nat

text \<open>
  The framework modules the source constructs, each with the constructor arguments of the
  source: \<open>Linear in_features out_features\<close>, \<open>Conv1d in_channels out_channels kernel_size\<close>
  (always with \<^verbatim>\<open>padding='same'\<close>), \<open>AdditiveAttention query_dim embed_dim\<close>,
  \<open>Embedding num_embeddings embedding_dim padding_idx\<close>, and
  \<open>EmbeddingPretrained rows cols padding_idx\<close> for
  \<^verbatim>\<open>nn.Embedding.from_pretrained(embeddings, freeze=False, padding_idx)\<close> on a matrix of
  shape \<open>(rows, cols)\<close>. The source passes its argument \<^verbatim>\<open>category_embed_dim\<close>, an integer
  or \<^verbatim>\<open>None\<close>, as \<^verbatim>\<open>embedding_dim\<close> and as \<^verbatim>\<open>in_features\<close>: these two are options.
\<close>

datatype module =
    RobertaModel config
  | Linear "nat option" nat
  | Dropout real
  | Conv1d nat nat nat
  | AdditiveAttention nat nat
  | Embedding nat "nat option" int
  | EmbeddingPretrained nat nat int
  | ReLU
  | Sequential "module list"

text \<open>
  The arguments of \<^verbatim>\<open>__init__\<close> after \<^verbatim>\<open>config\<close>, under the names of the source. The
  pretrained matrix \<^verbatim>\<open>category_embed\<close> is represented by its shape \<open>(rows, cols)\<close>, so that
  \<^verbatim>\<open>category_embed.shape[1]\<close> is its second component.
\<close>

record init_args =
  apply_reduce_dim :: bool
  use_cls_embed :: bool
  use_sapo :: bool
  use_category :: bool
  category_pad_token_id :: int
  query_dim :: nat
  dropout :: real
  category_embed_dim :: "nat option"
  category_embed :: "(nat \<times> nat) option"
  num_category :: "nat option"
  num_cnn_filters :: "nat option"
  window_size :: "nat option"
  word_embed_dim :: "nat option"

text \<open>
  The attributes of \<^verbatim>\<open>self\<close>; \<open>self_x\<close> is \<^verbatim>\<open>self.x\<close>, and \<open>self_embed_dim\<close> is
  \<^verbatim>\<open>self._embed_dim\<close>.
\<close>

record encoder =
  self_roberta :: module
  self_apply_reduce_dim :: bool
  self_reduce_dim :: "module option"
  self_word_embed_dropout :: "module option"
  self_embed_dim :: nat
  self_use_cls_embed :: bool
  self_use_sapo :: bool
  self_use_category :: bool
  self_title_cnn :: "module option"
  self_title_dropout :: "module option"
  self_title_additive_attn :: "module option"
  self_sapo_cnn :: "module option"
  self_sapo_dropout :: "module option"
  self_sapo_additive_attn :: "module option"
  self_category_embedding :: "module option"
  self_category_dense_layer :: "module option"
  self_attn_pooling :: "module option"

subsection \<open>\<^verbatim>\<open>NewsEncoder.__init__\<close>\<close>

text \<open>
  A statement of \<^verbatim>\<open>__init__\<close> raises or hands its value to the next one.
\<close>

definition bind_err :: "error + 'a \<Rightarrow> ('a \<Rightarrow> error + 'b) \<Rightarrow> error + 'b" where
  "bind_err r k = (case r of Inl err \<Rightarrow> Inl err | Inr x \<Rightarrow> k x)"

text \<open>
  The call of a constructor of the framework: \<open>ctor m\<close> is the exception the framework
  raises when asked to build \<open>m\<close>, if it raises one.
\<close>

definition call_constructor :: "(module \<Rightarrow> error option) \<Rightarrow> module \<Rightarrow> error + module" where
  "call_constructor ctor m = (case ctor m of Some err \<Rightarrow> Inl err | None \<Rightarrow> Inr m)"

text \<open>
  Lines 37 to 47: the language model, and the optional reduction of its embedding size.
  \<^verbatim>\<open>super().__init__(config)\<close> assigns none of the attributes below.
\<close>

definition init_word_embed ::
  "(module \<Rightarrow> error option) \<Rightarrow> config \<Rightarrow> init_args \<Rightarrow> error + encoder" where
  "init_word_embed ctor cfg a =
     bind_err (call_constructor ctor (RobertaModel cfg)) (\<lambda>roberta.
     let e = \<lparr> self_roberta = roberta,
               self_apply_reduce_dim = apply_reduce_dim a,
               self_reduce_dim = None,
               self_word_embed_dropout = None,
               self_embed_dim = hidden_size cfg,
               self_use_cls_embed = False,
               self_use_sapo = False,
               self_use_category = False,
               self_title_cnn = None,
               self_title_dropout = None,
               self_title_additive_attn = None,
               self_sapo_cnn = None,
               self_sapo_dropout = None,
               self_sapo_additive_attn = None,
               self_category_embedding = None,
               self_category_dense_layer = None,
               self_attn_pooling = None \<rparr>
     in if self_apply_reduce_dim e then
          (case word_embed_dim a of
             None \<Rightarrow> Inl AssertionError
           | Some w \<Rightarrow>
               bind_err (call_constructor ctor (Linear (Some (hidden_size cfg)) w)) (\<lambda>reduce_dim.
               bind_err (call_constructor ctor (Dropout (dropout a))) (\<lambda>word_embed_dropout.
               Inr (e\<lparr> self_reduce_dim := Some reduce_dim,
                      self_word_embed_dropout := Some word_embed_dropout,
                      self_embed_dim := w \<rparr>))))
        else Inr (e\<lparr> self_embed_dim := hidden_size cfg \<rparr>))"

text \<open>Lines 49 to 67: the flags, and the CNN and attention modules of the text encoders.\<close>

definition init_text_encoders ::
  "(module \<Rightarrow> error option) \<Rightarrow> init_args \<Rightarrow> encoder \<Rightarrow> error + encoder" where
  "init_text_encoders ctor a e0 =
     (let e = e0\<lparr> self_use_cls_embed := use_cls_embed a,
                  self_use_sapo := use_sapo a,
                  self_use_category := use_category a \<rparr>
      in if \<not> self_use_cls_embed e then
           (case (window_size a, num_cnn_filters a) of
              (Some k, Some f) \<Rightarrow>
                bind_err (call_constructor ctor (Conv1d (self_embed_dim e) f k)) (\<lambda>title_cnn.
                bind_err (call_constructor ctor (Dropout (dropout a))) (\<lambda>title_dropout.
                bind_err (call_constructor ctor (AdditiveAttention (query_dim a) f))
                  (\<lambda>title_additive_attn.
                let e1 = e\<lparr> self_title_cnn := Some title_cnn,
                            self_title_dropout := Some title_dropout,
                            self_title_additive_attn := Some title_additive_attn \<rparr>
                in bind_err
                     (if self_use_sapo e1 then
                        bind_err (call_constructor ctor (Conv1d (self_embed_dim e1) f k)) (\<lambda>sapo_cnn.
                        bind_err (call_constructor ctor (Dropout (dropout a))) (\<lambda>sapo_dropout.
                        bind_err (call_constructor ctor (AdditiveAttention (query_dim a) f))
                          (\<lambda>sapo_additive_attn.
                        Inr (e1\<lparr> self_sapo_cnn := Some sapo_cnn,
                                self_sapo_dropout := Some sapo_dropout,
                                self_sapo_additive_attn := Some sapo_additive_attn \<rparr>))))
                      else Inr e1)
                     (\<lambda>e2. Inr (e2\<lparr> self_embed_dim := f \<rparr>)))))
            | _ \<Rightarrow> Inl AssertionError)
         else Inr e)"

text \<open>
  Lines 69 to 83: the category encoder. With a pretrained matrix the local
  \<^verbatim>\<open>category_embed_dim\<close> is overwritten by \<^verbatim>\<open>category_embed.shape[1]\<close>; without one it is
  the argument, which may be \<^verbatim>\<open>None\<close>. The dense layer is built from its two layers.
\<close>

definition init_category ::
  "(module \<Rightarrow> error option) \<Rightarrow> init_args \<Rightarrow> encoder \<Rightarrow> error + encoder" where
  "init_category ctor a e =
     (if self_use_category e then
        bind_err
          (case category_embed a of
             Some (rows, cols) \<Rightarrow>
               bind_err
                 (call_constructor ctor (EmbeddingPretrained rows cols (category_pad_token_id a)))
                 (\<lambda>category_embedding. Inr (category_embedding, Some cols))
           | None \<Rightarrow>
               (case num_category a of
                  None \<Rightarrow> Inl AssertionError
                | Some n \<Rightarrow>
                    bind_err
                      (call_constructor ctor
                         (Embedding n (category_embed_dim a) (category_pad_token_id a)))
                      (\<lambda>category_embedding.
                         Inr (category_embedding, category_embed_dim a))))
          (\<lambda>(category_embedding, category_embed_dim).
             bind_err (call_constructor ctor (Linear category_embed_dim (self_embed_dim e)))
               (\<lambda>linear.
             bind_err (call_constructor ctor ReLU) (\<lambda>relu.
             bind_err (call_constructor ctor (Sequential [linear, relu])) (\<lambda>category_dense_layer.
             Inr (e\<lparr> self_category_embedding := Some category_embedding,
                    self_category_dense_layer := Some category_dense_layer \<rparr>)))))
      else Inr e)"

text \<open>Lines 85 to 87: the attentive pooling over the components.\<close>

definition init_pooling ::
  "(module \<Rightarrow> error option) \<Rightarrow> init_args \<Rightarrow> encoder \<Rightarrow> error + encoder" where
  "init_pooling ctor a e =
     (if self_use_sapo e \<or> self_use_category e then
        bind_err (call_constructor ctor (AdditiveAttention (query_dim a) (self_embed_dim e)))
          (\<lambda>attn_pooling. Inr (e\<lparr> self_attn_pooling := Some attn_pooling \<rparr>))
      else Inr e)"

text \<open>
  Line 89: \<^verbatim>\<open>self.init_weights()\<close> is a call into the framework on the finished encoder;
  \<open>iw e\<close> is the exception it raises, if it raises one. It assigns no attribute.
\<close>

definition init ::
  "(module \<Rightarrow> error option) \<Rightarrow> (encoder \<Rightarrow> error option) \<Rightarrow> config \<Rightarrow> init_args
     \<Rightarrow> error + encoder" where
  "init ctor iw cfg a =
     bind_err (init_word_embed ctor cfg a) (\<lambda>e1.
     bind_err (init_text_encoders ctor a e1) (\<lambda>e2.
     bind_err (init_category ctor a e2) (\<lambda>e3.
     bind_err (init_pooling ctor a e3) (\<lambda>e.
     case iw e of Some err \<Rightarrow> Inl err | None \<Rightarrow> Inr e))))"

text \<open>The property \<^verbatim>\<open>embed_dim\<close>, lines 154 to 156.\<close>

definition embed_dim :: "encoder \<Rightarrow> nat" where
  "embed_dim e = self_embed_dim e"

subsection \<open>The constructors of PyTorch\<close>

text \<open>
  One \<open>ctor\<close> is concrete. It holds the checks the constructors make on the arguments
  \<^verbatim>\<open>__init__\<close> hands them:
  \<^item> \<^verbatim>\<open>nn.Dropout(p)\<close> raises \<^verbatim>\<open>ValueError\<close> unless \<open>0 \<le> p \<le> 1\<close>;
  \<^item> \<^verbatim>\<open>nn.Embedding\<close> asserts that a positive \<^verbatim>\<open>padding_idx\<close> is below
    \<^verbatim>\<open>num_embeddings\<close> and a negative one not below \<open>- num_embeddings\<close>; it then
    raises \<^verbatim>\<open>TypeError\<close> on an \<^verbatim>\<open>embedding_dim\<close> that is \<^verbatim>\<open>None\<close>, and \<^verbatim>\<open>IndexError\<close>
    when it zeroes the padding row of an empty table;
  \<^item> \<^verbatim>\<open>nn.Embedding.from_pretrained\<close> makes the same assertions on the rows of its matrix;
  \<^item> \<^verbatim>\<open>nn.Linear\<close> raises \<^verbatim>\<open>TypeError\<close> on an \<^verbatim>\<open>in_features\<close> that is \<^verbatim>\<open>None\<close>;
  \<^item> \<^verbatim>\<open>RobertaModel(config)\<close> raises \<^verbatim>\<open>ValueError\<close> unless the hidden size is a multiple
    of the number of attention heads.
\<close>

definition padding_idx_in_table :: "nat \<Rightarrow> int \<Rightarrow> bool" where
  "padding_idx_in_table n padding_idx =
     (if 0 < padding_idx then padding_idx < int n
      else if padding_idx < 0 then - int n \<le> padding_idx
      else True)"

fun torch_ctor :: "module \<Rightarrow> error option" where
  "torch_ctor (RobertaModel cfg) =
     (if num_attention_heads cfg = 0 then Some ZeroDivisionError
      else if hidden_size cfg mod num_attention_heads cfg \<noteq> 0 then Some ValueError
      else None)"
| "torch_ctor (Linear i out) = (if i = None then Some TypeError else None)"
| "torch_ctor (Dropout p) = (if p < 0 \<or> 1 < p then Some ValueError else None)"
| "torch_ctor (Embedding n d padding_idx) =
     (if \<not> padding_idx_in_table n padding_idx then Some AssertionError
      else if d = None then Some TypeError
      else if n = 0 then Some IndexError
      else None)"
| "torch_ctor (EmbeddingPretrained rows cols padding_idx) =
     (if \<not> padding_idx_in_table rows padding_idx then Some AssertionError else None)"
| "torch_ctor (Conv1d ci co k) = None"
| "torch_ctor (AdditiveAttention q d) = None"
| "torch_ctor ReLU = None"
| "torch_ctor (Sequential ms) = None"

text \<open>
  \<^verbatim>\<open>init_weights\<close> draws the weights of every linear and embedding layer again and zeroes
  the padding row of every embedding: on a pretrained table without rows it raises
  \<^verbatim>\<open>IndexError\<close>. An empty table of \<^verbatim>\<open>nn.Embedding\<close> has been refused by its constructor.
\<close>

definition torch_init_weights :: "encoder \<Rightarrow> error option" where
  "torch_init_weights e =
     (case self_category_embedding e of
        Some (EmbeddingPretrained rows cols padding_idx) \<Rightarrow>
          (if rows = 0 then Some IndexError else None)
      | _ \<Rightarrow> None)"

subsection \<open>The framework\<close>

text \<open>
  A computation of \<^verbatim>\<open>forward\<close> either raises or returns a value and the next framework
  state. The state stands for what a module call may read and change besides its arguments:
  the random generator of the dropout layers in training mode.
\<close>

type_synonym ('a, 's) run = "'s \<Rightarrow> error + ('a \<times> 's)"

definition return_run :: "'a \<Rightarrow> ('a, 's) run" where
  "return_run x s = Inr (x, s)"

definition raise_run :: "error \<Rightarrow> ('a, 's) run" where
  "raise_run err s = Inl err"

definition bind_run :: "('a, 's) run \<Rightarrow> ('a \<Rightarrow> ('b, 's) run) \<Rightarrow> ('b, 's) run" where
  "bind_run m k s = (case m s of Inl err \<Rightarrow> Inl err | Inr (x, s') \<Rightarrow> k x s')"

text \<open>A tensor function of the framework: it raises or returns, and leaves the state.\<close>

definition lift_run :: "error + 'a \<Rightarrow> ('a, 's) run" where
  "lift_run r s = (case r of Inl err \<Rightarrow> Inl err | Inr x \<Rightarrow> Inr (x, s))"

text \<open>Reading an attribute of \<^verbatim>\<open>self\<close> that \<^verbatim>\<open>__init__\<close> may have left unassigned.\<close>

definition get_attr :: "'a option \<Rightarrow> ('a, 's) run" where
  "get_attr x = (case x of None \<Rightarrow> raise_run AttributeError | Some v \<Rightarrow> return_run v)"

text \<open>
  What \<^verbatim>\<open>forward\<close> asks of PyTorch and of the transformer library, over any type \<open>'t\<close> of
  tensors and any type \<open>'s\<close> of framework states:
  \<^item> \<open>call_module name m args\<close> calls the sub-module \<^verbatim>\<open>self.<name>\<close>, built as \<open>m\<close>, on
    \<open>args\<close> in the order of its signature; an argument is \<^verbatim>\<open>None\<close> or a tensor. For
    \<^verbatim>\<open>self.roberta\<close> the result is element \<^verbatim>\<open>[0]\<close> of what the model returns;
  \<^item> \<open>select_first x\<close> is \<^verbatim>\<open>x[:, 0, :]\<close>;
  \<^item> \<open>transpose_1_2 x\<close> is \<^verbatim>\<open>x.transpose(1, 2).contiguous()\<close>;
  \<^item> \<open>stack_dim1 xs\<close> is \<^verbatim>\<open>torch.stack(xs, dim=1)\<close>;
  \<^item> \<open>ones_mask x\<close> is
    \<^verbatim>\<open>torch.ones((x.shape[0], x.shape[1]), dtype=torch.bool, device=x.device)\<close>.
\<close>

record ('t, 's) framework =
  call_module :: "string \<Rightarrow> module \<Rightarrow> 't option list \<Rightarrow> ('t, 's) run"
  select_first :: "'t \<Rightarrow> error + 't"
  transpose_1_2 :: "'t \<Rightarrow> error + 't"
  stack_dim1 :: "'t list \<Rightarrow> error + 't"
  ones_mask :: "'t \<Rightarrow> error + 't"

subsection \<open>\<^verbatim>\<open>NewsEncoder.forward\<close>\<close>

text \<open>
  Lines 108 to 111, and again 124 to 127: the language model, then the optional reduction
  and its dropout. Both texts go through the same three attributes of \<^verbatim>\<open>self\<close>.
\<close>

definition word_embed ::
  "('t, 's) framework \<Rightarrow> encoder \<Rightarrow> 't option \<Rightarrow> 't option \<Rightarrow> ('t, 's) run" where
  "word_embed fw e encoding attn_mask =
     bind_run (call_module fw ''roberta'' (self_roberta e) [encoding, attn_mask])
       (\<lambda>word_embed.
          if self_apply_reduce_dim e then
            bind_run (get_attr (self_reduce_dim e)) (\<lambda>reduce_dim.
            bind_run (call_module fw ''reduce_dim'' reduce_dim [Some word_embed])
              (\<lambda>word_embed.
            bind_run (get_attr (self_word_embed_dropout e)) (\<lambda>word_embed_dropout.
            call_module fw ''word_embed_dropout'' word_embed_dropout [Some word_embed])))
          else return_run word_embed)"

text \<open>Lines 107 to 119: the title encoder, returning \<^verbatim>\<open>title_repr\<close>.\<close>

definition title_encoder ::
  "('t, 's) framework \<Rightarrow> encoder \<Rightarrow> 't \<Rightarrow> 't \<Rightarrow> ('t, 's) run" where
  "title_encoder fw e title_encoding title_attn_mask =
     bind_run (word_embed fw e (Some title_encoding) (Some title_attn_mask))
       (\<lambda>title_word_embed.
          if self_use_cls_embed e then lift_run (select_first fw title_word_embed)
          else
            bind_run (lift_run (transpose_1_2 fw title_word_embed)) (\<lambda>title_word_embed.
            bind_run (get_attr (self_title_cnn e)) (\<lambda>title_cnn.
            bind_run (call_module fw ''title_cnn'' title_cnn [Some title_word_embed])
              (\<lambda>title_word_context.
            bind_run (lift_run (transpose_1_2 fw title_word_context))
              (\<lambda>title_word_context.
            bind_run (get_attr (self_title_dropout e)) (\<lambda>title_dropout.
            bind_run (call_module fw ''title_dropout'' title_dropout [Some title_word_context])
              (\<lambda>title_word_context.
            bind_run (get_attr (self_title_additive_attn e)) (\<lambda>title_additive_attn.
            call_module fw ''title_additive_attn'' title_additive_attn
              [Some title_word_context, Some title_attn_mask]))))))))"

text \<open>Lines 124 to 135: the sapo encoder, returning \<^verbatim>\<open>sapo_repr\<close>.\<close>

definition sapo_encoder ::
  "('t, 's) framework \<Rightarrow> encoder \<Rightarrow> 't option \<Rightarrow> 't option \<Rightarrow> ('t, 's) run" where
  "sapo_encoder fw e sapo_encoding sapo_attn_mask =
     bind_run (word_embed fw e sapo_encoding sapo_attn_mask)
       (\<lambda>sapo_word_embed.
          if self_use_cls_embed e then lift_run (select_first fw sapo_word_embed)
          else
            bind_run (lift_run (transpose_1_2 fw sapo_word_embed)) (\<lambda>sapo_word_embed.
            bind_run (get_attr (self_sapo_cnn e)) (\<lambda>sapo_cnn.
            bind_run (call_module fw ''sapo_cnn'' sapo_cnn [Some sapo_word_embed])
              (\<lambda>sapo_word_context.
            bind_run (lift_run (transpose_1_2 fw sapo_word_context))
              (\<lambda>sapo_word_context.
            bind_run (get_attr (self_sapo_dropout e)) (\<lambda>sapo_dropout.
            bind_run (call_module fw ''sapo_dropout'' sapo_dropout [Some sapo_word_context])
              (\<lambda>sapo_word_context.
            bind_run (get_attr (self_sapo_additive_attn e)) (\<lambda>sapo_additive_attn.
            call_module fw ''sapo_additive_attn'' sapo_additive_attn
              [Some sapo_word_context, sapo_attn_mask]))))))))"

text \<open>Lines 141 and 142: the category encoder, returning \<^verbatim>\<open>category_repr\<close>.\<close>

definition category_encoder ::
  "('t, 's) framework \<Rightarrow> encoder \<Rightarrow> 't option \<Rightarrow> ('t, 's) run" where
  "category_encoder fw e category_encoding =
     bind_run (get_attr (self_category_embedding e)) (\<lambda>category_embedding.
     bind_run (call_module fw ''category_embedding'' category_embedding [category_encoding])
       (\<lambda>category_embed.
     bind_run (get_attr (self_category_dense_layer e)) (\<lambda>category_dense_layer.
     call_module fw ''category_dense_layer'' category_dense_layer [Some category_embed])))"

text \<open>
  Lines 106 to 143: the list \<^verbatim>\<open>news_info\<close> as it stands before the pooling, together with
  \<^verbatim>\<open>title_repr\<close>, which line 152 returns.
\<close>

definition collect_news_info ::
  "('t, 's) framework \<Rightarrow> encoder \<Rightarrow> 't \<Rightarrow> 't \<Rightarrow> 't option \<Rightarrow> 't option \<Rightarrow> 't option
     \<Rightarrow> ('t \<times> 't list, 's) run" where
  "collect_news_info fw e title_encoding title_attn_mask sapo_encoding sapo_attn_mask
       category_encoding =
     bind_run (title_encoder fw e title_encoding title_attn_mask) (\<lambda>title_repr.
     bind_run (return_run ([] @ [title_repr])) (\<lambda>news_info.
     bind_run
       (if self_use_sapo e then
          bind_run (sapo_encoder fw e sapo_encoding sapo_attn_mask) (\<lambda>sapo_repr.
          return_run (news_info @ [sapo_repr]))
        else return_run news_info) (\<lambda>news_info.
     bind_run
       (if self_use_category e then
          bind_run (category_encoder fw e category_encoding) (\<lambda>category_repr.
          return_run (news_info @ [category_repr]))
        else return_run news_info) (\<lambda>news_info.
     return_run (title_repr, news_info)))))"

text \<open>Lines 146 to 152: the attentive pooling, or the title representation as it is.\<close>

definition attentive_pooling ::
  "('t, 's) framework \<Rightarrow> encoder \<Rightarrow> 't \<Rightarrow> 't list \<Rightarrow> ('t, 's) run" where
  "attentive_pooling fw e title_repr news_info =
     (if self_use_category e \<or> self_use_sapo e then
        bind_run (lift_run (stack_dim1 fw news_info)) (\<lambda>news_info.
        bind_run (lift_run (ones_mask fw news_info)) (\<lambda>mask.
        bind_run (get_attr (self_attn_pooling e)) (\<lambda>attn_pooling.
        call_module fw ''attn_pooling'' attn_pooling [Some news_info, Some mask])))
      else return_run title_repr)"

definition forward ::
  "('t, 's) framework \<Rightarrow> encoder \<Rightarrow> 't \<Rightarrow> 't \<Rightarrow> 't option \<Rightarrow> 't option \<Rightarrow> 't option
     \<Rightarrow> ('t, 's) run" where
  "forward fw e title_encoding title_attn_mask sapo_encoding sapo_attn_mask
       category_encoding =
     bind_run
       (collect_news_info fw e title_encoding title_attn_mask sapo_encoding sapo_attn_mask
          category_encoding)
       (\<lambda>(title_repr, news_info). attentive_pooling fw e title_repr news_info)"

subsection \<open>The framework on shapes\<close>

text \<open>
  One framework is concrete: a tensor is its shape, there is no state, and every operation
  is the shape rule of its documentation. It decides what shape \<^verbatim>\<open>forward\<close> returns and
  whether it raises on a shape; it says nothing of the numbers. What PyTorch does with an
  empty tensor or a module of size zero depends on the operation: a convolution with no
  output channel or an empty kernel raises. The rules below raise on every dimension and
  every size that is zero, so that a result is a result for positive sizes.
\<close>

definition all_positive :: "nat list \<Rightarrow> bool" where
  "all_positive x = list_all (\<lambda>n. 0 < n) x"

text \<open>
  The language model takes token ids of shape \<open>(B, L)\<close>, with a mask of the same shape or
  none, to \<open>(B, L, hidden_size)\<close>, and raises \<^verbatim>\<open>ValueError\<close> without token ids. A text longer
  than the position table raises \<^verbatim>\<open>RuntimeError\<close>. The position of a token that is not
  padding is its rank plus the padding index: the rule raises \<^verbatim>\<open>IndexError\<close> when the last
  position of a text without padding falls outside the table.
\<close>

definition shape_roberta :: "config \<Rightarrow> nat list option list \<Rightarrow> error + nat list" where
  "shape_roberta cfg args =
     (case args of
        [None, _] \<Rightarrow> Inl ValueError
      | [Some [b, l], attention_mask] \<Rightarrow>
          (if attention_mask \<noteq> None \<and> attention_mask \<noteq> Some [b, l] then Inl RuntimeError
           else if \<not> all_positive [b, l, hidden_size cfg] then Inl RuntimeError
           else if max_position_embeddings cfg < l then Inl RuntimeError
           else if max_position_embeddings cfg \<le> l + pad_token_id cfg then Inl IndexError
           else Inr [b, l, hidden_size cfg])
      | [Some _, _] \<Rightarrow> Inl RuntimeError
      | _ \<Rightarrow> Inl TypeError)"

text \<open>
  Modelled from the spec: \<^verbatim>\<open>AdditiveAttention\<close> (\<^verbatim>\<open>src/model/additive_attention.py\<close>) is
  code of the repository that is not among the sources. The spec calls it an attention-based
  pooling step, and the docstring of \<^verbatim>\<open>forward\<close> gives the shape
  \<open>(batch_size, embed_dim)\<close> to what it returns: built with \<^verbatim>\<open>embed_dim = d\<close>, it takes
  embeddings of shape \<open>(B, L, d)\<close> and a mask of shape \<open>(B, L)\<close> to \<open>(B, d)\<close>.
\<close>

definition shape_additive_attention ::
  "nat \<Rightarrow> nat \<Rightarrow> nat list option list \<Rightarrow> error + nat list" where
  "shape_additive_attention q d args =
     (case args of
        [Some [b, l, d'], Some attn_mask] \<Rightarrow>
          (if d' = d \<and> attn_mask = [b, l] \<and> all_positive [q, b, l, d] then Inr [b, d]
           else Inl RuntimeError)
      | [Some _, Some _] \<Rightarrow> Inl RuntimeError
      | _ \<Rightarrow> Inl TypeError)"

text \<open>
  The shape rules of the other modules:
  \<^item> \<open>Linear (Some i) out\<close> replaces a last dimension \<open>i\<close> by \<open>out\<close>;
  \<^item> \<open>Conv1d ci co k\<close> with \<^verbatim>\<open>padding='same'\<close> takes \<open>(B, ci, L)\<close> to \<open>(B, co, L)\<close>, and
    \<open>(ci, L)\<close> to \<open>(co, L)\<close>;
  \<^item> an embedding of dimension \<open>d\<close> appends \<open>d\<close> to the shape of the indices;
  \<^item> \<open>Dropout\<close> and \<open>ReLU\<close> keep the shape, \<open>Sequential\<close> chains its modules.
\<close>

fun shape_call :: "module \<Rightarrow> nat list option list \<Rightarrow> error + nat list"
  and shape_sequential :: "module list \<Rightarrow> nat list \<Rightarrow> error + nat list" where
  "shape_call (RobertaModel cfg) args = shape_roberta cfg args"
| "shape_call (Linear i out) args =
     (case args of
        [Some x] \<Rightarrow>
          (if i = None then Inl TypeError
           else if x \<noteq> [] \<and> Some (last x) = i \<and> all_positive x \<and> 0 < out
           then Inr (butlast x @ [out]) else Inl RuntimeError)
      | _ \<Rightarrow> Inl TypeError)"
| "shape_call (Dropout p) args =
     (case args of [Some x] \<Rightarrow> Inr x | _ \<Rightarrow> Inl TypeError)"
| "shape_call (Conv1d ci co k) args =
     (case args of
        [Some [c, l]] \<Rightarrow>
          (if c = ci \<and> all_positive [c, l, co, k] then Inr [co, l] else Inl RuntimeError)
      | [Some [b, c, l]] \<Rightarrow>
          (if c = ci \<and> all_positive [b, c, l, co, k] then Inr [b, co, l] else Inl RuntimeError)
      | [Some _] \<Rightarrow> Inl RuntimeError
      | _ \<Rightarrow> Inl TypeError)"
| "shape_call (AdditiveAttention q d) args = shape_additive_attention q d args"
| "shape_call (Embedding n d pad) args =
     (case args of
        [Some x] \<Rightarrow>
          (case d of
             None \<Rightarrow> Inl TypeError
           | Some d' \<Rightarrow> (if all_positive (n # d' # x) then Inr (x @ [d']) else Inl RuntimeError))
      | _ \<Rightarrow> Inl TypeError)"
| "shape_call (EmbeddingPretrained rows cols pad) args =
     (case args of
        [Some x] \<Rightarrow>
          (if all_positive (rows # cols # x) then Inr (x @ [cols]) else Inl RuntimeError)
      | _ \<Rightarrow> Inl TypeError)"
| "shape_call ReLU args =
     (case args of [Some x] \<Rightarrow> Inr x | _ \<Rightarrow> Inl TypeError)"
| "shape_call (Sequential ms) args =
     (case args of [Some x] \<Rightarrow> shape_sequential ms x | _ \<Rightarrow> Inl TypeError)"
| "shape_sequential [] x = Inr x"
| "shape_sequential (m # ms) x =
     (case shape_call m [Some x] of Inl err \<Rightarrow> Inl err | Inr y \<Rightarrow> shape_sequential ms y)"

text \<open>
  The shape rules of the tensor functions: \<^verbatim>\<open>x[:, 0, :]\<close> needs three dimensions and a
  non-empty second one; \<^verbatim>\<open>transpose(1, 2)\<close> needs three dimensions; \<^verbatim>\<open>torch.stack\<close> at
  \<^verbatim>\<open>dim=1\<close> needs a non-empty list of tensors of one shape with at least one dimension;
  \<^verbatim>\<open>x.shape[1]\<close> needs two dimensions.
\<close>

definition shape_select_first :: "nat list \<Rightarrow> error + nat list" where
  "shape_select_first x =
     (case x of
        [b, l, d] \<Rightarrow> (if l = 0 then Inl IndexError else Inr [b, d])
      | _ \<Rightarrow> Inl IndexError)"

definition shape_transpose_1_2 :: "nat list \<Rightarrow> error + nat list" where
  "shape_transpose_1_2 x =
     (case x of
        b # l # d # rest \<Rightarrow> Inr (b # d # l # rest)
      | _ \<Rightarrow> Inl IndexError)"

definition shape_stack_dim1 :: "nat list list \<Rightarrow> error + nat list" where
  "shape_stack_dim1 xs =
     (case xs of
        [] \<Rightarrow> Inl RuntimeError
      | x # rest \<Rightarrow>
          (if \<not> list_all (\<lambda>y. y = x) rest then Inl RuntimeError
           else (case x of
                   [] \<Rightarrow> Inl IndexError
                 | b # ds \<Rightarrow> Inr (b # length xs # ds))))"

definition shape_ones_mask :: "nat list \<Rightarrow> error + nat list" where
  "shape_ones_mask x =
     (case x of
        b # n # _ \<Rightarrow> Inr [b, n]
      | _ \<Rightarrow> Inl IndexError)"

definition shape_fw :: "(nat list, unit) framework" where
  "shape_fw =
     \<lparr> call_module = (\<lambda>name m args. lift_run (shape_call m args)),
       select_first = shape_select_first,
       transpose_1_2 = shape_transpose_1_2,
       stack_dim1 = shape_stack_dim1,
       ones_mask = shape_ones_mask \<rparr>"

subsection \<open>Valid sizes\<close>

text \<open>
  The sizes a configuration uses are positive, and a text of \<open>l\<close> tokens fits the position
  table of the language model.
\<close>

definition is_positive :: "nat option \<Rightarrow> bool" where
  "is_positive n = (case n of None \<Rightarrow> False | Some k \<Rightarrow> 0 < k)"

definition positive_sizes :: "config \<Rightarrow> init_args \<Rightarrow> bool" where
  "positive_sizes cfg a =
     (0 < hidden_size cfg
      \<and> (apply_reduce_dim a \<longrightarrow> is_positive (word_embed_dim a))
      \<and> (\<not> use_cls_embed a \<longrightarrow>
            is_positive (num_cnn_filters a) \<and> is_positive (window_size a) \<and> 0 < query_dim a)
      \<and> (use_sapo a \<or> use_category a \<longrightarrow> 0 < query_dim a)
      \<and> (use_category a \<longrightarrow>
            (case category_embed a of
               Some (rows, cols) \<Rightarrow> 0 < rows \<and> 0 < cols
             | None \<Rightarrow> is_positive (num_category a) \<and> is_positive (category_embed_dim a))))"

definition fits_positions :: "config \<Rightarrow> nat \<Rightarrow> bool" where
  "fits_positions cfg l = (0 < l \<and> l + pad_token_id cfg < max_position_embeddings cfg)"

subsection \<open>Example configurations\<close>

text \<open>
  The configurations on which the theorems below are run, all on the sizes of
  \<^verbatim>\<open>roberta-base\<close>: the title alone, represented by the embedding of its first token; every
  optional part switched on; the title alone with the reduction of the embedding size; and
  a category encoder on a pretrained matrix of shape \<open>(20, 100)\<close>. The two encoders are what
  \<^verbatim>\<open>__init__\<close> returns on the first and the third.
\<close>

definition roberta_base :: config where
  "roberta_base =
     \<lparr> hidden_size = 768, num_attention_heads = 12, max_position_embeddings = 514,
       pad_token_id = 1 \<rparr>"

definition title_only_args :: init_args where
  "title_only_args =
     \<lparr> apply_reduce_dim = False, use_cls_embed = True, use_sapo = False, use_category = False,
       category_pad_token_id = 0, query_dim = 200, dropout = 0.2,
       category_embed_dim = None, category_embed = None, num_category = None,
       num_cnn_filters = None, window_size = None, word_embed_dim = None \<rparr>"

definition full_args :: init_args where
  "full_args =
     \<lparr> apply_reduce_dim = True, use_cls_embed = False, use_sapo = True, use_category = True,
       category_pad_token_id = 0, query_dim = 200, dropout = 0.2,
       category_embed_dim = Some 100, category_embed = None, num_category = Some 20,
       num_cnn_filters = Some 400, window_size = Some 3, word_embed_dim = Some 256 \<rparr>"


definition pretrained_args :: init_args where
  "pretrained_args =
     \<lparr> apply_reduce_dim = False, use_cls_embed = True, use_sapo = False, use_category = True,
       category_pad_token_id = 0, query_dim = 200, dropout = 0.2,
       category_embed_dim = Some 7, category_embed = Some (20, 100), num_category = None,
       num_cnn_filters = None, window_size = None, word_embed_dim = None \<rparr>"

definition title_only_encoder :: encoder where
  "title_only_encoder =
     \<lparr> self_roberta = RobertaModel roberta_base,
       self_apply_reduce_dim = False,
       self_reduce_dim = None,
       self_word_embed_dropout = None,
       self_embed_dim = 768,
       self_use_cls_embed = True,
       self_use_sapo = False,
       self_use_category = False,
       self_title_cnn = None,
       self_title_dropout = None,
       self_title_additive_attn = None,
       self_sapo_cnn = None,
       self_sapo_dropout = None,
       self_sapo_additive_attn = None,
       self_category_embedding = None,
       self_category_dense_layer = None,
       self_attn_pooling = None \<rparr>"


subsection \<open>Three readings of the spec\<close>

text \<open>
  The reading of the spec for C2: whatever the configuration, the components are stacked
  and merged by \<^verbatim>\<open>self.attn_pooling\<close>.
\<close>

definition spec_forward_always_pooled ::
  "('t, 's) framework \<Rightarrow> encoder \<Rightarrow> 't \<Rightarrow> 't \<Rightarrow> 't option \<Rightarrow> 't option \<Rightarrow> 't option
     \<Rightarrow> ('t, 's) run" where
  "spec_forward_always_pooled fw e title_encoding title_attn_mask sapo_encoding sapo_attn_mask
       category_encoding =
     bind_run
       (collect_news_info fw e title_encoding title_attn_mask sapo_encoding sapo_attn_mask
          category_encoding)
       (\<lambda>(title_repr, news_info).
          bind_run (lift_run (stack_dim1 fw news_info)) (\<lambda>news_info.
          bind_run (lift_run (ones_mask fw news_info)) (\<lambda>mask.
          bind_run (get_attr (self_attn_pooling e)) (\<lambda>attn_pooling.
          call_module fw ''attn_pooling'' attn_pooling [Some news_info, Some mask]))))"





section \<open>What \<^verbatim>\<open>__init__\<close> constructs\<close>

lemma bind_err_Inr_iff [simp]:
  "bind_err r k = Inr y \<longleftrightarrow> (\<exists>x. r = Inr x \<and> k x = Inr y)"
  by (cases r) (simp_all add: bind_err_def)


lemma construct_Inr_iff [simp]: "call_constructor ctor m = Inr m' \<longleftrightarrow> ctor m = None \<and> m' = m"
  by (auto simp: call_constructor_def split: option.splits)

lemma construct_Inl_iff [simp]: "call_constructor ctor m = Inl err \<longleftrightarrow> ctor m = Some err"
  by (auto simp: call_constructor_def split: option.splits)

lemma init_stages:
  assumes "init ctor iw cfg a = Inr e"
  obtains e1 e2 e3 where "init_word_embed ctor cfg a = Inr e1"
    "init_text_encoders ctor a e1 = Inr e2" "init_category ctor a e2 = Inr e3"
    "init_pooling ctor a e3 = Inr e" "iw e = None"
  using assms by (auto simp: init_def split: option.splits)

lemma stage1:
  assumes "init_word_embed ctor cfg a = Inr e1"
  shows "self_roberta e1 = RobertaModel cfg"
    and "self_apply_reduce_dim e1 = apply_reduce_dim a"
    and "apply_reduce_dim a \<Longrightarrow>
           self_reduce_dim e1 = Some (Linear (Some (hidden_size cfg)) (self_embed_dim e1))
         \<and> self_word_embed_dropout e1 = Some (Dropout (dropout a))"
    and "\<not> apply_reduce_dim a \<Longrightarrow> self_embed_dim e1 = hidden_size cfg"
    and "Some (self_embed_dim e1) =
           (if apply_reduce_dim a then word_embed_dim a else Some (hidden_size cfg))"
    and "self_title_cnn e1 = None \<and> self_title_additive_attn e1 = None
         \<and> self_sapo_cnn e1 = None \<and> self_sapo_additive_attn e1 = None
         \<and> self_attn_pooling e1 = None"
  using assms
  by (auto simp: init_word_embed_def Let_def split: option.splits if_splits)

lemma stage2:
  assumes "init_text_encoders ctor a e1 = Inr e2"
  shows "self_roberta e2 = self_roberta e1"
    and "self_apply_reduce_dim e2 = self_apply_reduce_dim e1"
    and "self_reduce_dim e2 = self_reduce_dim e1"
    and "self_word_embed_dropout e2 = self_word_embed_dropout e1"
    and "self_use_cls_embed e2 = use_cls_embed a"
    and "self_use_sapo e2 = use_sapo a"
    and "self_use_category e2 = use_category a"
    and "use_cls_embed a \<Longrightarrow> self_embed_dim e2 = self_embed_dim e1"
    and "\<not> use_cls_embed a \<Longrightarrow> \<exists>k.
           window_size a = Some k \<and> num_cnn_filters a = Some (self_embed_dim e2)
         \<and> self_title_cnn e2 = Some (Conv1d (self_embed_dim e1) (self_embed_dim e2) k)
         \<and> self_title_dropout e2 = Some (Dropout (dropout a))
         \<and> self_title_additive_attn e2 = Some (AdditiveAttention (query_dim a) (self_embed_dim e2))"
    and "\<not> use_cls_embed a \<Longrightarrow> use_sapo a \<Longrightarrow> \<exists>k.
           window_size a = Some k
         \<and> self_sapo_cnn e2 = Some (Conv1d (self_embed_dim e1) (self_embed_dim e2) k)
         \<and> self_sapo_dropout e2 = Some (Dropout (dropout a))
         \<and> self_sapo_additive_attn e2 = Some (AdditiveAttention (query_dim a) (self_embed_dim e2))"
    and "self_attn_pooling e2 = self_attn_pooling e1"
    and "use_cls_embed a \<Longrightarrow>
           self_title_cnn e2 = self_title_cnn e1
         \<and> self_title_additive_attn e2 = self_title_additive_attn e1
         \<and> self_sapo_cnn e2 = self_sapo_cnn e1
         \<and> self_sapo_additive_attn e2 = self_sapo_additive_attn e1"
  using assms
  by (auto simp: init_text_encoders_def Let_def split: option.splits if_splits)

lemma stage3:
  assumes "init_category ctor a e2 = Inr e3"
  shows "self_roberta e3 = self_roberta e2"
    and "self_apply_reduce_dim e3 = self_apply_reduce_dim e2"
    and "self_reduce_dim e3 = self_reduce_dim e2"
    and "self_word_embed_dropout e3 = self_word_embed_dropout e2"
    and "self_use_cls_embed e3 = self_use_cls_embed e2"
    and "self_use_sapo e3 = self_use_sapo e2"
    and "self_use_category e3 = self_use_category e2"
    and "self_embed_dim e3 = self_embed_dim e2"
    and "self_title_cnn e3 = self_title_cnn e2"
    and "self_title_dropout e3 = self_title_dropout e2"
    and "self_title_additive_attn e3 = self_title_additive_attn e2"
    and "self_sapo_cnn e3 = self_sapo_cnn e2"
    and "self_sapo_dropout e3 = self_sapo_dropout e2"
    and "self_sapo_additive_attn e3 = self_sapo_additive_attn e2"
    and "self_attn_pooling e3 = self_attn_pooling e2"
  using assms
  by (auto simp: init_category_def split: option.splits if_splits prod.splits)

lemma stage3_category:
  assumes "init_category ctor a e2 = Inr e3" and "self_use_category e2"
  shows "\<exists>emb d. self_category_embedding e3 = Some emb
           \<and> self_category_dense_layer e3
               = Some (Sequential [Linear d (self_embed_dim e2), ReLU])
           \<and> (case category_embed a of
                 Some (rows, cols) \<Rightarrow>
                   emb = EmbeddingPretrained rows cols (category_pad_token_id a) \<and> d = Some cols
               | None \<Rightarrow> (\<exists>n. num_category a = Some n
                   \<and> emb = Embedding n (category_embed_dim a) (category_pad_token_id a)
                   \<and> d = category_embed_dim a))"
  using assms
  by (auto simp: init_category_def split: option.splits if_splits prod.splits)

lemma stage4:
  assumes "init_pooling ctor a e3 = Inr e"
  shows "self_roberta e = self_roberta e3"
    and "self_apply_reduce_dim e = self_apply_reduce_dim e3"
    and "self_reduce_dim e = self_reduce_dim e3"
    and "self_word_embed_dropout e = self_word_embed_dropout e3"
    and "self_use_cls_embed e = self_use_cls_embed e3"
    and "self_use_sapo e = self_use_sapo e3"
    and "self_use_category e = self_use_category e3"
    and "self_embed_dim e = self_embed_dim e3"
    and "self_title_cnn e = self_title_cnn e3"
    and "self_title_dropout e = self_title_dropout e3"
    and "self_title_additive_attn e = self_title_additive_attn e3"
    and "self_sapo_cnn e = self_sapo_cnn e3"
    and "self_sapo_dropout e = self_sapo_dropout e3"
    and "self_sapo_additive_attn e = self_sapo_additive_attn e3"
    and "self_category_embedding e = self_category_embedding e3"
    and "self_category_dense_layer e = self_category_dense_layer e3"
    and "self_attn_pooling e =
           (if self_use_sapo e3 \<or> self_use_category e3
            then Some (AdditiveAttention (query_dim a) (self_embed_dim e3))
            else self_attn_pooling e3)"
  using assms
  by (auto simp: init_pooling_def split: if_splits)

lemma init_flags:
  assumes "init ctor iw cfg a = Inr e"
  shows "self_roberta e = RobertaModel cfg"
    and "self_apply_reduce_dim e = apply_reduce_dim a"
    and "self_use_cls_embed e = use_cls_embed a"
    and "self_use_sapo e = use_sapo a"
    and "self_use_category e = use_category a"
proof -
  from assms obtain e1 e2 e3 where s: "init_word_embed ctor cfg a = Inr e1"
    "init_text_encoders ctor a e1 = Inr e2" "init_category ctor a e2 = Inr e3"
    "init_pooling ctor a e3 = Inr e"
    by (rule init_stages)
  show "self_roberta e = RobertaModel cfg"
    by (simp add: stage4[OF s(4)] stage3[OF s(3)] stage2[OF s(2)] stage1[OF s(1)])
  show "self_apply_reduce_dim e = apply_reduce_dim a"
    by (simp add: stage4[OF s(4)] stage3[OF s(3)] stage2[OF s(2)] stage1[OF s(1)])
  show "self_use_cls_embed e = use_cls_embed a"
    by (simp add: stage4[OF s(4)] stage3[OF s(3)] stage2[OF s(2)])
  show "self_use_sapo e = use_sapo a"
    by (simp add: stage4[OF s(4)] stage3[OF s(3)] stage2[OF s(2)])
  show "self_use_category e = use_category a"
    by (simp add: stage4[OF s(4)] stage3[OF s(3)] stage2[OF s(2)])
qed

lemma init_word_modules:
  assumes "init ctor iw cfg a = Inr e"
  shows "\<exists>w. Some w = (if apply_reduce_dim a then word_embed_dim a else Some (hidden_size cfg))
            \<and> (apply_reduce_dim a \<longrightarrow>
                 self_reduce_dim e = Some (Linear (Some (hidden_size cfg)) w)
               \<and> self_word_embed_dropout e = Some (Dropout (dropout a)))
            \<and> (use_cls_embed a \<longrightarrow> self_embed_dim e = w)
            \<and> (\<not> use_cls_embed a \<longrightarrow> (\<exists>k.
                 window_size a = Some k \<and> num_cnn_filters a = Some (self_embed_dim e)
               \<and> self_title_cnn e = Some (Conv1d w (self_embed_dim e) k)
               \<and> self_title_dropout e = Some (Dropout (dropout a))
               \<and> self_title_additive_attn e =
                   Some (AdditiveAttention (query_dim a) (self_embed_dim e))))
            \<and> (\<not> use_cls_embed a \<and> use_sapo a \<longrightarrow> (\<exists>k.
                 window_size a = Some k
               \<and> self_sapo_cnn e = Some (Conv1d w (self_embed_dim e) k)
               \<and> self_sapo_dropout e = Some (Dropout (dropout a))
               \<and> self_sapo_additive_attn e =
                   Some (AdditiveAttention (query_dim a) (self_embed_dim e))))"
proof -
  from assms obtain e1 e2 e3 where s: "init_word_embed ctor cfg a = Inr e1"
    "init_text_encoders ctor a e1 = Inr e2" "init_category ctor a e2 = Inr e3"
    "init_pooling ctor a e3 = Inr e"
    by (rule init_stages)
  note pres = stage4(1-16)[OF s(4)] stage3[OF s(3)] stage2(1-7)[OF s(2)]
  have w: "Some (self_embed_dim e1) =
             (if apply_reduce_dim a then word_embed_dim a else Some (hidden_size cfg))"
    by (rule stage1(5)[OF s(1)])
  have a: "apply_reduce_dim a \<longrightarrow>
             self_reduce_dim e = Some (Linear (Some (hidden_size cfg)) (self_embed_dim e1))
           \<and> self_word_embed_dropout e = Some (Dropout (dropout a))"
    using stage1(3)[OF s(1)] by (simp add: pres)
  have c: "use_cls_embed a \<longrightarrow> self_embed_dim e = self_embed_dim e1"
    using stage2(8)[OF s(2)] by (simp add: pres)
  have d: "\<not> use_cls_embed a \<longrightarrow> (\<exists>k.
                 window_size a = Some k \<and> num_cnn_filters a = Some (self_embed_dim e)
               \<and> self_title_cnn e = Some (Conv1d (self_embed_dim e1) (self_embed_dim e) k)
               \<and> self_title_dropout e = Some (Dropout (dropout a))
               \<and> self_title_additive_attn e =
                   Some (AdditiveAttention (query_dim a) (self_embed_dim e)))"
    using stage2(9)[OF s(2)] by (simp add: pres)
  have f: "\<not> use_cls_embed a \<and> use_sapo a \<longrightarrow> (\<exists>k.
                 window_size a = Some k
               \<and> self_sapo_cnn e = Some (Conv1d (self_embed_dim e1) (self_embed_dim e) k)
               \<and> self_sapo_dropout e = Some (Dropout (dropout a))
               \<and> self_sapo_additive_attn e =
                   Some (AdditiveAttention (query_dim a) (self_embed_dim e)))"
    using stage2(10)[OF s(2)] by (simp add: pres)
  from w a c d f show ?thesis by blast
qed

lemma init_category_modules:
  assumes "init ctor iw cfg a = Inr e" and "use_category a"
  shows "\<exists>emb d. self_category_embedding e = Some emb
           \<and> self_category_dense_layer e
               = Some (Sequential [Linear d (self_embed_dim e), ReLU])
           \<and> (case category_embed a of
                 Some (rows, cols) \<Rightarrow>
                   emb = EmbeddingPretrained rows cols (category_pad_token_id a) \<and> d = Some cols
               | None \<Rightarrow> (\<exists>n. num_category a = Some n
                   \<and> emb = Embedding n (category_embed_dim a) (category_pad_token_id a)
                   \<and> d = category_embed_dim a))"
proof -
  from assms(1) obtain e1 e2 e3 where s: "init_word_embed ctor cfg a = Inr e1"
    "init_text_encoders ctor a e1 = Inr e2" "init_category ctor a e2 = Inr e3"
    "init_pooling ctor a e3 = Inr e"
    by (rule init_stages)
  have "self_use_category e2" using stage2(7)[OF s(2)] assms(2) by simp
  from stage3_category[OF s(3) this] show ?thesis
    by (simp add: stage4(1-16)[OF s(4)] stage3(8)[OF s(3)])
qed

lemma init_attn_pooling:
  assumes "init ctor iw cfg a = Inr e"
  shows "self_attn_pooling e =
           (if use_sapo a \<or> use_category a
            then Some (AdditiveAttention (query_dim a) (self_embed_dim e)) else None)"
proof -
  from assms obtain e1 e2 e3 where s: "init_word_embed ctor cfg a = Inr e1"
    "init_text_encoders ctor a e1 = Inr e2" "init_category ctor a e2 = Inr e3"
    "init_pooling ctor a e3 = Inr e"
    by (rule init_stages)
  have "self_attn_pooling e3 = None"
    using stage1(6)[OF s(1)] by (simp add: stage3(15)[OF s(3)] stage2(11)[OF s(2)])
  then show ?thesis
    by (simp add: stage4[OF s(4)] stage3(6,7)[OF s(3)] stage2(6,7)[OF s(2)])
qed

lemma init_embed_dim:
  assumes "init ctor iw cfg a = Inr e"
  shows "Some (embed_dim e) =
           (if use_cls_embed a
            then (if apply_reduce_dim a then word_embed_dim a else Some (hidden_size cfg))
            else num_cnn_filters a)"
  using init_word_modules[OF assms] by (auto simp: embed_dim_def)


text \<open>The shapes each block of \<^verbatim>\<open>forward\<close> returns on a constructed encoder.\<close>

lemmas run_defs = bind_run_def return_run_def raise_run_def lift_run_def get_attr_def

lemma shape_word_embed:
  assumes "init ctor iw cfg a = Inr e" and "positive_sizes cfg a" and "0 < b"
    and "fits_positions cfg l"
  shows "\<exists>w. 0 < w
            \<and> word_embed shape_fw e (Some [b, l]) (Some [b, l]) () = Inr ([b, l, w], ())
            \<and> (use_cls_embed a \<longrightarrow> self_embed_dim e = w)
            \<and> (\<not> use_cls_embed a \<longrightarrow> (\<exists>k. 0 < k \<and> 0 < self_embed_dim e
               \<and> self_title_cnn e = Some (Conv1d w (self_embed_dim e) k)
               \<and> self_title_dropout e = Some (Dropout (dropout a))
               \<and> self_title_additive_attn e =
                   Some (AdditiveAttention (query_dim a) (self_embed_dim e))))
            \<and> (\<not> use_cls_embed a \<and> use_sapo a \<longrightarrow> (\<exists>k. 0 < k \<and> 0 < self_embed_dim e
               \<and> self_sapo_cnn e = Some (Conv1d w (self_embed_dim e) k)
               \<and> self_sapo_dropout e = Some (Dropout (dropout a))
               \<and> self_sapo_additive_attn e =
                   Some (AdditiveAttention (query_dim a) (self_embed_dim e))))"
proof -
  from init_word_modules[OF assms(1)] obtain w where
    w: "Some w = (if apply_reduce_dim a then word_embed_dim a else Some (hidden_size cfg))"
    and r: "apply_reduce_dim a \<longrightarrow>
       self_reduce_dim e = Some (Linear (Some (hidden_size cfg)) w)
     \<and> self_word_embed_dropout e = Some (Dropout (dropout a))"
    and cls: "use_cls_embed a \<longrightarrow> self_embed_dim e = w"
    and t: "\<not> use_cls_embed a \<longrightarrow> (\<exists>k.
                 window_size a = Some k \<and> num_cnn_filters a = Some (self_embed_dim e)
               \<and> self_title_cnn e = Some (Conv1d w (self_embed_dim e) k)
               \<and> self_title_dropout e = Some (Dropout (dropout a))
               \<and> self_title_additive_attn e =
                   Some (AdditiveAttention (query_dim a) (self_embed_dim e)))"
    and sp: "\<not> use_cls_embed a \<and> use_sapo a \<longrightarrow> (\<exists>k.
                 window_size a = Some k
               \<and> self_sapo_cnn e = Some (Conv1d w (self_embed_dim e) k)
               \<and> self_sapo_dropout e = Some (Dropout (dropout a))
               \<and> self_sapo_additive_attn e =
                   Some (AdditiveAttention (query_dim a) (self_embed_dim e)))"
    by blast
  have h: "0 < hidden_size cfg" using assms(2) by (simp add: positive_sizes_def)
  have pw: "0 < w"
  proof (cases "apply_reduce_dim a")
    case True
    with w have "word_embed_dim a = Some w" by simp
    with assms(2) True show ?thesis by (simp add: positive_sizes_def is_positive_def)
  next
    case False
    with w h show ?thesis by simp
  qed
  have rob: "shape_roberta cfg [Some [b, l], Some [b, l]] = Inr [b, l, hidden_size cfg]"
    using assms(3,4) h
    by (simp add: shape_roberta_def fits_positions_def all_positive_def)
  have we: "word_embed shape_fw e (Some [b, l]) (Some [b, l]) () = Inr ([b, l, w], ())"
  proof (cases "apply_reduce_dim a")
    case True
    with r rob pw h assms(3,4) show ?thesis
      by (simp add: word_embed_def init_flags[OF assms(1)] shape_fw_def run_defs
          all_positive_def fits_positions_def)
  next
    case False
    with w rob show ?thesis
      by (simp add: word_embed_def init_flags[OF assms(1)] shape_fw_def run_defs)
  qed
  have t': "\<not> use_cls_embed a \<longrightarrow> (\<exists>k. 0 < k \<and> 0 < self_embed_dim e
               \<and> self_title_cnn e = Some (Conv1d w (self_embed_dim e) k)
               \<and> self_title_dropout e = Some (Dropout (dropout a))
               \<and> self_title_additive_attn e =
                   Some (AdditiveAttention (query_dim a) (self_embed_dim e)))"
    using t assms(2) by (auto simp: positive_sizes_def is_positive_def)
  have sp': "\<not> use_cls_embed a \<and> use_sapo a \<longrightarrow> (\<exists>k. 0 < k \<and> 0 < self_embed_dim e
               \<and> self_sapo_cnn e = Some (Conv1d w (self_embed_dim e) k)
               \<and> self_sapo_dropout e = Some (Dropout (dropout a))
               \<and> self_sapo_additive_attn e =
                   Some (AdditiveAttention (query_dim a) (self_embed_dim e)))"
    using sp t assms(2) by (auto simp: positive_sizes_def is_positive_def)
  from pw we cls t' sp' show ?thesis by blast
qed

lemma shape_title_encoder:
  assumes "init ctor iw cfg a = Inr e" and "positive_sizes cfg a" and "0 < b"
    and "fits_positions cfg l"
  shows "title_encoder shape_fw e [b, l] [b, l] () = Inr ([b, embed_dim e], ())"
proof -
  from shape_word_embed[OF assms] obtain w where pw: "0 < w" and
    w: "word_embed shape_fw e (Some [b, l]) (Some [b, l]) () = Inr ([b, l, w], ())"
    and cls: "use_cls_embed a \<longrightarrow> self_embed_dim e = w"
    and cnn: "\<not> use_cls_embed a \<longrightarrow> (\<exists>k. 0 < k \<and> 0 < self_embed_dim e
               \<and> self_title_cnn e = Some (Conv1d w (self_embed_dim e) k)
               \<and> self_title_dropout e = Some (Dropout (dropout a))
               \<and> self_title_additive_attn e =
                   Some (AdditiveAttention (query_dim a) (self_embed_dim e)))"
    by blast
  have l: "0 < l" using assms(4) by (simp add: fits_positions_def)
  show ?thesis
  proof (cases "use_cls_embed a")
    case True
    with cls w l show ?thesis
      by (simp add: title_encoder_def init_flags[OF assms(1)] bind_run_def lift_run_def
          shape_fw_def shape_select_first_def embed_dim_def)
  next
    case False
    with cnn obtain k where "0 < k" "0 < self_embed_dim e"
      "self_title_cnn e = Some (Conv1d w (self_embed_dim e) k)"
      "self_title_dropout e = Some (Dropout (dropout a))"
      "self_title_additive_attn e = Some (AdditiveAttention (query_dim a) (self_embed_dim e))"
      by blast
    moreover have "0 < query_dim a" using assms(2) False by (simp add: positive_sizes_def)
    ultimately show ?thesis using False w pw l assms(3)
      by (simp add: title_encoder_def init_flags[OF assms(1)] run_defs
          shape_fw_def shape_additive_attention_def shape_transpose_1_2_def embed_dim_def
          all_positive_def)
  qed
qed

lemma shape_sapo_encoder:
  assumes "init ctor iw cfg a = Inr e" and "positive_sizes cfg a" and "0 < b"
    and "fits_positions cfg l" and "use_sapo a"
  shows "sapo_encoder shape_fw e (Some [b, l]) (Some [b, l]) () = Inr ([b, embed_dim e], ())"
proof -
  from shape_word_embed[OF assms(1-4)] obtain w where pw: "0 < w" and
    w: "word_embed shape_fw e (Some [b, l]) (Some [b, l]) () = Inr ([b, l, w], ())"
    and cls: "use_cls_embed a \<longrightarrow> self_embed_dim e = w"
    and cnn: "\<not> use_cls_embed a \<and> use_sapo a \<longrightarrow> (\<exists>k. 0 < k \<and> 0 < self_embed_dim e
               \<and> self_sapo_cnn e = Some (Conv1d w (self_embed_dim e) k)
               \<and> self_sapo_dropout e = Some (Dropout (dropout a))
               \<and> self_sapo_additive_attn e =
                   Some (AdditiveAttention (query_dim a) (self_embed_dim e)))"
    by blast
  have l: "0 < l" using assms(4) by (simp add: fits_positions_def)
  show ?thesis
  proof (cases "use_cls_embed a")
    case True
    with cls w l show ?thesis
      by (simp add: sapo_encoder_def init_flags[OF assms(1)] bind_run_def lift_run_def
          shape_fw_def shape_select_first_def embed_dim_def)
  next
    case False
    with cnn assms(5) obtain k where "0 < k" "0 < self_embed_dim e"
      "self_sapo_cnn e = Some (Conv1d w (self_embed_dim e) k)"
      "self_sapo_dropout e = Some (Dropout (dropout a))"
      "self_sapo_additive_attn e = Some (AdditiveAttention (query_dim a) (self_embed_dim e))"
      by blast
    moreover have "0 < query_dim a" using assms(2) False by (simp add: positive_sizes_def)
    ultimately show ?thesis using False w pw l assms(3)
      by (simp add: sapo_encoder_def init_flags[OF assms(1)] run_defs
          shape_fw_def shape_additive_attention_def shape_transpose_1_2_def embed_dim_def
          all_positive_def)
  qed
qed

lemma init_embed_dim_positive:
  assumes "init ctor iw cfg a = Inr e" and "positive_sizes cfg a"
  shows "0 < embed_dim e"
proof -
  have d: "(if use_cls_embed a
            then (if apply_reduce_dim a then word_embed_dim a else Some (hidden_size cfg))
            else num_cnn_filters a) = Some (embed_dim e)"
    using init_embed_dim[OF assms(1)] by simp
  show ?thesis
  proof (cases "use_cls_embed a")
    case False
    with d assms(2) show ?thesis by (simp add: positive_sizes_def is_positive_def)
  next
    case True
    show ?thesis
    proof (cases "apply_reduce_dim a")
      case r: True
      with d True assms(2) show ?thesis by (simp add: positive_sizes_def is_positive_def)
    next
      case r: False
      with d True assms(2) show ?thesis by (auto simp add: positive_sizes_def)
    qed
  qed
qed

lemma shape_category_encoder:
  assumes "init ctor iw cfg a = Inr e" and "positive_sizes cfg a" and "0 < b"
    and "use_category a"
  shows "category_encoder shape_fw e (Some [b]) () = Inr ([b, embed_dim e], ())"
proof -
  from init_category_modules[OF assms(1,4)] obtain emb d where
    m: "self_category_embedding e = Some emb"
    "self_category_dense_layer e = Some (Sequential [Linear d (self_embed_dim e), ReLU])"
    and c: "case category_embed a of
                 Some (rows, cols) \<Rightarrow>
                   emb = EmbeddingPretrained rows cols (category_pad_token_id a) \<and> d = Some cols
               | None \<Rightarrow> (\<exists>n. num_category a = Some n
                   \<and> emb = Embedding n (category_embed_dim a) (category_pad_token_id a)
                   \<and> d = category_embed_dim a)"
    by blast
  have "\<exists>d'. d = Some d' \<and> 0 < d' \<and> shape_call emb [Some [b]] = Inr [b, d']"
    using c assms(2,3,4)
    by (auto simp: positive_sizes_def is_positive_def all_positive_def
        split: option.splits prod.splits)
  then obtain d' where "d = Some d'" "0 < d'" "shape_call emb [Some [b]] = Inr [b, d']"
    by blast
  with m init_embed_dim_positive[OF assms(1,2)] assms(3) show ?thesis
    by (simp add: category_encoder_def run_defs shape_fw_def embed_dim_def all_positive_def)
qed

lemma shape_attentive_pooling:
  assumes "init ctor iw cfg a = Inr e" and "positive_sizes cfg a" and "0 < b"
    and "use_sapo a \<or> use_category a"
    and "news_info = x # rest" and "x = [b, embed_dim e]" and "list_all (\<lambda>y. y = x) rest"
  shows "attentive_pooling shape_fw e title_repr news_info () = Inr ([b, embed_dim e], ())"
proof -
  have "0 < query_dim a" using assms(2,4) by (auto simp: positive_sizes_def)
  with init_embed_dim_positive[OF assms(1,2)] assms(3-) show ?thesis
    by (auto simp add: attentive_pooling_def init_flags[OF assms(1)]
        init_attn_pooling[OF assms(1)] run_defs shape_fw_def shape_additive_attention_def
        shape_stack_dim1_def shape_ones_mask_def embed_dim_def all_positive_def)
qed

lemma shape_collect_news_info:
  assumes "init ctor iw cfg a = Inr e" and "positive_sizes cfg a" and "0 < batch_size"
    and "fits_positions cfg title_length"
    and "use_sapo a \<Longrightarrow>
           sapo_encoding = Some [batch_size, sapo_length]
         \<and> sapo_attn_mask = Some [batch_size, sapo_length] \<and> fits_positions cfg sapo_length"
    and "use_category a \<Longrightarrow> category_encoding = Some [batch_size]"
  shows "collect_news_info shape_fw e [batch_size, title_length] [batch_size, title_length]
           sapo_encoding sapo_attn_mask category_encoding ()
        = Inr (([batch_size, embed_dim e],
                [batch_size, embed_dim e]
                # (if use_sapo a then [[batch_size, embed_dim e]] else [])
                @ (if use_category a then [[batch_size, embed_dim e]] else [])), ())"
proof -
  note fl = init_flags[OF assms(1)]
  have t: "title_encoder shape_fw e [batch_size, title_length] [batch_size, title_length] ()
             = Inr ([batch_size, embed_dim e], ())"
    by (rule shape_title_encoder[OF assms(1-4)])
  have s: "sapo_encoder shape_fw e sapo_encoding sapo_attn_mask ()
             = Inr ([batch_size, embed_dim e], ())" if "use_sapo a"
    using shape_sapo_encoder[OF assms(1-3) _ that, of sapo_length] assms(5)[OF that]
    by simp
  have c: "category_encoder shape_fw e category_encoding ()
             = Inr ([batch_size, embed_dim e], ())" if "use_category a"
    using shape_category_encoder[OF assms(1-3) that] assms(6)[OF that] by simp
  show ?thesis
    using t s c by (simp add: collect_news_info_def fl bind_run_def return_run_def)
qed

lemma shape_forward:
  assumes "init ctor iw cfg a = Inr e" and "positive_sizes cfg a" and "0 < batch_size"
    and "fits_positions cfg title_length"
    and "use_sapo a \<Longrightarrow>
           sapo_encoding = Some [batch_size, sapo_length]
         \<and> sapo_attn_mask = Some [batch_size, sapo_length] \<and> fits_positions cfg sapo_length"
    and "use_category a \<Longrightarrow> category_encoding = Some [batch_size]"
  shows "forward shape_fw e [batch_size, title_length] [batch_size, title_length]
           sapo_encoding sapo_attn_mask category_encoding ()
         = Inr ([batch_size, embed_dim e], ())"
proof -
  have col: "collect_news_info shape_fw e [batch_size, title_length] [batch_size, title_length]
           sapo_encoding sapo_attn_mask category_encoding ()
        = Inr (([batch_size, embed_dim e],
                [batch_size, embed_dim e]
                # (if use_sapo a then [[batch_size, embed_dim e]] else [])
                @ (if use_category a then [[batch_size, embed_dim e]] else [])), ())"
    by (rule shape_collect_news_info[OF assms(1-4)]; rule assms(5,6); assumption)
  show ?thesis
  proof (cases "use_sapo a \<or> use_category a")
    case True
    then show ?thesis
      using shape_attentive_pooling[OF assms(1-3) True, of _ "[batch_size, embed_dim e]"]
      by (simp add: forward_def bind_run_def col)
  next
    case False
    then show ?thesis
      by (simp add: forward_def bind_run_def col attentive_pooling_def init_flags[OF assms(1)]
          return_run_def)
  qed
qed

text \<open>The laws of sequencing, and the encoder of the title alone.\<close>

lemma bind_run_assoc:
  "bind_run (bind_run m f) g = bind_run m (\<lambda>x. bind_run (f x) g)"
  by (rule ext) (simp add: bind_run_def split: sum.splits prod.splits)

lemma bind_run_return_left: "bind_run (return_run x) f = f x"
  by (rule ext) (simp add: bind_run_def return_run_def)

lemma bind_run_return_right: "bind_run m return_run = m"
  by (rule ext) (simp add: bind_run_def return_run_def split: sum.splits prod.splits)

lemma collect_title_only:
  assumes "\<not> self_use_sapo e" and "\<not> self_use_category e"
  shows "collect_news_info fw e t m sp sm c =
           bind_run (title_encoder fw e t m) (\<lambda>title_repr. return_run (title_repr, [title_repr]))"
  using assms by (simp add: collect_news_info_def bind_run_return_left)

lemma forward_title_only:
  assumes "\<not> self_use_sapo e" and "\<not> self_use_category e"
  shows "forward fw e t m sp sm c = title_encoder fw e t m"
  using assms
  by (simp add: forward_def collect_title_only bind_run_assoc bind_run_return_left
      attentive_pooling_def bind_run_return_right)

text \<open>The example configurations.\<close>

lemmas init_defs = init_def init_word_embed_def init_text_encoders_def init_category_def
  init_pooling_def Let_def bind_err_def call_constructor_def padding_idx_in_table_def
  torch_init_weights_def

lemma full_args_constructs: "\<exists>e. init torch_ctor torch_init_weights roberta_base full_args = Inr e"
  by (simp add: init_defs roberta_base_def full_args_def)

lemma full_args_positive: "positive_sizes roberta_base full_args"
  by (simp add: positive_sizes_def is_positive_def roberta_base_def full_args_def)

lemma title_only_constructs:
  "init torch_ctor torch_init_weights roberta_base title_only_args = Inr title_only_encoder"
  by (simp add: init_defs roberta_base_def title_only_args_def title_only_encoder_def)



lemma roberta_base_fits: "fits_positions roberta_base 5" "fits_positions roberta_base 8"
  by (simp_all add: fits_positions_def roberta_base_def)










section \<open>The claims\<close>



text \<open>
  C2 as stated, that the output is merged by \<^verbatim>\<open>attn_pooling\<close> in every configuration, fails
  on the title alone: \<^verbatim>\<open>__init__\<close> builds no \<^verbatim>\<open>attn_pooling\<close>, \<^verbatim>\<open>forward\<close> returns the title
  representation of shape \<open>(2, 768)\<close>, and pooling would raise \<^verbatim>\<open>AttributeError\<close>.
\<close>

theorem forward_always_pooled_counterexample:
  "init torch_ctor torch_init_weights roberta_base title_only_args = Inr title_only_encoder
   \<and> forward shape_fw title_only_encoder [2, 5] [2, 5] None None None ()
       \<noteq> spec_forward_always_pooled shape_fw title_only_encoder [2, 5] [2, 5] None None None ()
   \<and> forward shape_fw title_only_encoder [2, 5] [2, 5] None None None () = Inr ([2, 768], ())
   \<and> spec_forward_always_pooled shape_fw title_only_encoder [2, 5] [2, 5] None None None ()
       = Inl AttributeError
   \<and> self_attn_pooling title_only_encoder = None"
  by (simp add: title_only_constructs)
     (simp add: forward_def spec_forward_always_pooled_def collect_news_info_def
       attentive_pooling_def title_encoder_def word_embed_def run_defs shape_fw_def shape_additive_attention_def shape_roberta_def all_positive_def
       shape_select_first_def shape_stack_dim1_def shape_ones_mask_def
       title_only_encoder_def roberta_base_def)

text \<open>
  C2, amended. When \<^verbatim>\<open>use_sapo\<close> or \<^verbatim>\<open>use_category\<close> is set, the output of \<^verbatim>\<open>forward\<close> is
  the stack of the component representations merged by the \<^verbatim>\<open>AdditiveAttention\<close> module
  \<^verbatim>\<open>attn_pooling\<close>. With neither, no \<^verbatim>\<open>attn_pooling\<close> exists and the output is the title
  representation itself (lines 146 to 152).
\<close>

theorem forward_pooled_when_optional_component:
  assumes "init ctor iw cfg a = Inr e"
  shows "(use_sapo a \<or> use_category a \<longrightarrow>
            self_attn_pooling e = Some (AdditiveAttention (query_dim a) (embed_dim e))
          \<and> forward fw e t m sp sm c = spec_forward_always_pooled fw e t m sp sm c)
       \<and> (\<not> use_sapo a \<and> \<not> use_category a \<longrightarrow>
            self_attn_pooling e = None
          \<and> forward fw e t m sp sm c = title_encoder fw e t m)"
proof (intro conjI impI)
  assume "use_sapo a \<or> use_category a"
  then show "self_attn_pooling e = Some (AdditiveAttention (query_dim a) (embed_dim e))"
    by (simp add: init_attn_pooling[OF assms] embed_dim_def)
next
  assume "use_sapo a \<or> use_category a"
  then have "self_use_category e \<or> self_use_sapo e"
    by (auto simp: init_flags[OF assms])
  then show "forward fw e t m sp sm c = spec_forward_always_pooled fw e t m sp sm c"
    by (simp add: forward_def spec_forward_always_pooled_def attentive_pooling_def)
next
  assume "\<not> use_sapo a \<and> \<not> use_category a"
  then show "self_attn_pooling e = None"
    by (simp add: init_attn_pooling[OF assms])
next
  assume "\<not> use_sapo a \<and> \<not> use_category a"
  then show "forward fw e t m sp sm c = title_encoder fw e t m"
    by (simp add: forward_title_only init_flags[OF assms])
qed

theorem forward_pooled_when_optional_component_witness:
  "(\<exists>e. init torch_ctor torch_init_weights roberta_base full_args = Inr e
       \<and> self_attn_pooling e = Some (AdditiveAttention 200 400)
       \<and> forward shape_fw e [2, 5] [2, 5] (Some [2, 8]) (Some [2, 8]) (Some [2])
           = spec_forward_always_pooled shape_fw e [2, 5] [2, 5] (Some [2, 8]) (Some [2, 8])
               (Some [2]))
   \<and> forward shape_fw title_only_encoder [2, 5] [2, 5] None None None
       = title_encoder shape_fw title_only_encoder [2, 5] [2, 5]"
proof -
  obtain e where e: "init torch_ctor torch_init_weights roberta_base full_args = Inr e"
    using full_args_constructs by blast
  have "Some (embed_dim e) = Some 400"
    using init_embed_dim[OF e] by (simp add: full_args_def)
  then have d: "embed_dim e = 400" by simp
  have "self_attn_pooling e = Some (AdditiveAttention 200 400)
       \<and> forward shape_fw e [2, 5] [2, 5] (Some [2, 8]) (Some [2, 8]) (Some [2])
           = spec_forward_always_pooled shape_fw e [2, 5] [2, 5] (Some [2, 8]) (Some [2, 8])
               (Some [2])"
    using forward_pooled_when_optional_component[OF e, of shape_fw "[2, 5]" "[2, 5]"
        "Some [2, 8]" "Some [2, 8]" "Some [2]"] d
    by (simp add: full_args_def)
  moreover have "forward shape_fw title_only_encoder [2, 5] [2, 5] None None None
       = title_encoder shape_fw title_only_encoder [2, 5] [2, 5]"
    using forward_pooled_when_optional_component[OF title_only_constructs, of shape_fw
        "[2, 5]" "[2, 5]" None None None]
    by (simp add: title_only_args_def)
  ultimately show ?thesis using e by blast
qed

text \<open>
  C3. \<^verbatim>\<open>forward\<close> returns \<open>output\<close> exactly when the title encoder returns a representation,
  the sapo encoder returns one if and only if \<^verbatim>\<open>use_sapo\<close> was passed to \<^verbatim>\<open>__init__\<close>, the
  category encoder returns one if and only if \<^verbatim>\<open>use_category\<close> was, and \<open>output\<close> is made of
  these and of nothing else: with an optional component it is \<^verbatim>\<open>attn_pooling\<close> on their
  stack, in this order, and without one it is the title representation. Which encoders
  run depends on the two flags alone.
\<close>

theorem forward_output_from_components:
  assumes "init ctor iw cfg a = Inr e"
  shows "forward fw e t m sp sm c s = Inr (output, s') \<longleftrightarrow>
     (\<exists>title_repr s1 sapo_part s2 category_part s3.
         title_encoder fw e t m s = Inr (title_repr, s1)
       \<and> (if use_sapo a
          then \<exists>sapo_repr. sapo_encoder fw e sp sm s1 = Inr (sapo_repr, s2)
                 \<and> sapo_part = [sapo_repr]
          else sapo_part = [] \<and> s2 = s1)
       \<and> (if use_category a
          then \<exists>category_repr. category_encoder fw e c s2 = Inr (category_repr, s3)
                 \<and> category_part = [category_repr]
          else category_part = [] \<and> s3 = s2)
       \<and> (if use_sapo a \<or> use_category a
          then \<exists>stacked ones.
                 stack_dim1 fw ([title_repr] @ sapo_part @ category_part) = Inr stacked
               \<and> ones_mask fw stacked = Inr ones
               \<and> call_module fw ''attn_pooling''
                    (AdditiveAttention (query_dim a) (embed_dim e))
                    [Some stacked, Some ones] s3
                  = Inr (output, s')
          else output = title_repr \<and> s' = s3))"
proof -
  note fl = init_flags[OF assms]
  note ap = init_attn_pooling[OF assms]
  show ?thesis
  proof (cases "use_sapo a")
    case True
    show ?thesis
    proof (cases "use_category a")
      case c: True
      with True show ?thesis
        by (auto simp: forward_def collect_news_info_def attentive_pooling_def fl ap run_defs
            embed_dim_def split: sum.splits)
    next
      case c: False
      with True show ?thesis
        by (auto simp: forward_def collect_news_info_def attentive_pooling_def fl ap run_defs
            embed_dim_def split: sum.splits)
    qed
  next
    case False
    show ?thesis
    proof (cases "use_category a")
      case c: True
      with False show ?thesis
        by (auto simp: forward_def collect_news_info_def attentive_pooling_def fl ap run_defs
            embed_dim_def split: sum.splits)
    next
      case c: False
      with False show ?thesis
        by (auto simp: forward_def collect_news_info_def attentive_pooling_def fl ap run_defs
            embed_dim_def split: sum.splits)
    qed
  qed
qed

theorem forward_output_from_components_witness:
  "\<exists>e. init torch_ctor torch_init_weights roberta_base full_args = Inr e
     \<and> (\<exists>title_repr s1 sapo_repr s2 category_repr s3 stacked ones.
           title_encoder shape_fw e [2, 5] [2, 5] () = Inr (title_repr, s1)
         \<and> sapo_encoder shape_fw e (Some [2, 8]) (Some [2, 8]) s1 = Inr (sapo_repr, s2)
         \<and> category_encoder shape_fw e (Some [2]) s2 = Inr (category_repr, s3)
         \<and> stack_dim1 shape_fw [title_repr, sapo_repr, category_repr] = Inr stacked
         \<and> ones_mask shape_fw stacked = Inr ones
         \<and> call_module shape_fw ''attn_pooling'' (AdditiveAttention 200 (embed_dim e))
              [Some stacked, Some ones] s3
            = Inr ([2, embed_dim e], ()))"
proof -
  obtain e where e: "init torch_ctor torch_init_weights roberta_base full_args = Inr e"
    using full_args_constructs by blast
  have fwd: "forward shape_fw e [2, 5] [2, 5] (Some [2, 8]) (Some [2, 8]) (Some [2]) ()
               = Inr ([2, embed_dim e], ())"
    by (rule shape_forward[OF e full_args_positive, where sapo_length = 8])
       (simp_all add: roberta_base_fits)
  have fl: "use_sapo full_args" "use_category full_args" "query_dim full_args = 200"
    by (simp_all add: full_args_def)
  from forward_output_from_components[OF e, THEN iffD1, OF fwd]
  have "\<exists>title_repr s1 sapo_repr s2 category_repr s3 stacked ones.
           title_encoder shape_fw e [2, 5] [2, 5] () = Inr (title_repr, s1)
         \<and> sapo_encoder shape_fw e (Some [2, 8]) (Some [2, 8]) s1 = Inr (sapo_repr, s2)
         \<and> category_encoder shape_fw e (Some [2]) s2 = Inr (category_repr, s3)
         \<and> stack_dim1 shape_fw [title_repr, sapo_repr, category_repr] = Inr stacked
         \<and> ones_mask shape_fw stacked = Inr ones
         \<and> call_module shape_fw ''attn_pooling'' (AdditiveAttention 200 (embed_dim e))
              [Some stacked, Some ones] s3
            = Inr ([2, embed_dim e], ())"
    by (clarsimp simp: fl)
  with e show ?thesis by blast
qed

text \<open>
  C4. \<^verbatim>\<open>forward\<close> begins with the call of \<^verbatim>\<open>self.roberta\<close> on \<^verbatim>\<open>title_encoding\<close> and
  \<^verbatim>\<open>title_attn_mask\<close>, and what follows does not depend on \<^verbatim>\<open>title_encoding\<close>. When
  \<^verbatim>\<open>use_sapo\<close> is set, the title encoder is followed by the call of the same \<^verbatim>\<open>self.roberta\<close>
  on \<^verbatim>\<open>sapo_encoding\<close> and \<^verbatim>\<open>sapo_attn_mask\<close>, and what follows does not depend on
  \<^verbatim>\<open>sapo_encoding\<close>.
\<close>

theorem forward_applies_roberta_first:
  "(\<exists>k. \<forall>title_encoding.
      forward fw e title_encoding title_attn_mask sapo_encoding sapo_attn_mask category_encoding
      = bind_run
          (call_module fw ''roberta'' (self_roberta e)
             [Some title_encoding, Some title_attn_mask]) k)
   \<and> (self_use_sapo e \<longrightarrow>
       (\<exists>k. \<forall>sapo_encoding.
          forward fw e title_encoding title_attn_mask sapo_encoding sapo_attn_mask
            category_encoding
          = bind_run (title_encoder fw e title_encoding title_attn_mask) (\<lambda>title_repr.
            bind_run
              (call_module fw ''roberta'' (self_roberta e) [sapo_encoding, sapo_attn_mask])
              (k title_repr))))"
proof (intro conjI impI)
  show "\<exists>k. \<forall>title_encoding.
      forward fw e title_encoding title_attn_mask sapo_encoding sapo_attn_mask category_encoding
      = bind_run
          (call_module fw ''roberta'' (self_roberta e)
             [Some title_encoding, Some title_attn_mask]) k"
    unfolding forward_def collect_news_info_def title_encoder_def word_embed_def bind_run_assoc
    by (rule exI, rule allI, rule refl)
next
  assume "self_use_sapo e"
  then have *: "(if self_use_sapo e then x else y) = x" for x y :: "('t list, 's) run"
    by simp
  show "\<exists>k. \<forall>sapo_encoding.
          forward fw e title_encoding title_attn_mask sapo_encoding sapo_attn_mask
            category_encoding
          = bind_run (title_encoder fw e title_encoding title_attn_mask) (\<lambda>title_repr.
            bind_run
              (call_module fw ''roberta'' (self_roberta e) [sapo_encoding, sapo_attn_mask])
              (k title_repr))"
    unfolding forward_def collect_news_info_def sapo_encoder_def word_embed_def *
      bind_run_assoc bind_run_return_left
    by (rule exI, rule allI, rule refl)
qed

theorem forward_applies_roberta_first_witness:
  "\<exists>e. init torch_ctor torch_init_weights roberta_base full_args = Inr e \<and> self_use_sapo e
     \<and> (\<exists>k. \<forall>sapo_encoding.
          forward shape_fw e [2, 5] [2, 5] sapo_encoding (Some [2, 8]) (Some [2])
          = bind_run (title_encoder shape_fw e [2, 5] [2, 5]) (\<lambda>title_repr.
            bind_run
              (call_module shape_fw ''roberta'' (self_roberta e) [sapo_encoding, Some [2, 8]])
              (k title_repr)))"
proof -
  obtain e where e: "init torch_ctor torch_init_weights roberta_base full_args = Inr e"
    using full_args_constructs by blast
  have s: "self_use_sapo e"
    by (simp add: init_flags[OF e] full_args_def)
  with forward_applies_roberta_first[where fw = shape_fw and e = e and title_encoding = "[2, 5]"
      and title_attn_mask = "[2, 5]" and sapo_attn_mask = "Some [2, 8]"
      and category_encoding = "Some [2]"]
    e show ?thesis by blast
qed









text \<open>
  C8. With \<^verbatim>\<open>use_category\<close> and a pretrained \<^verbatim>\<open>category_embed\<close>, the argument
  \<^verbatim>\<open>category_embed_dim\<close> has no effect on what \<^verbatim>\<open>__init__\<close> returns or raises, and the dense
  layer of the category encoder takes \<^verbatim>\<open>category_embed.shape[1]\<close> input features.
\<close>

theorem pretrained_category_embed_overrides_dim:
  assumes "use_category a" and "category_embed a = Some (rows, cols)"
  shows "init ctor iw cfg (a\<lparr> category_embed_dim := d \<rparr>) = init ctor iw cfg a
       \<and> (\<forall>e. init ctor iw cfg a = Inr e \<longrightarrow>
            self_category_embedding e
              = Some (EmbeddingPretrained rows cols (category_pad_token_id a))
          \<and> self_category_dense_layer e
              = Some (Sequential [Linear (Some cols) (embed_dim e), ReLU]))"
proof -
  have 1: "init_word_embed ctor cfg (a\<lparr> category_embed_dim := d \<rparr>)
             = init_word_embed ctor cfg a"
    by (simp add: init_word_embed_def Let_def cong: if_cong option.case_cong)
  have 2: "init_text_encoders ctor (a\<lparr> category_embed_dim := d \<rparr>) e1
             = init_text_encoders ctor a e1"
    for e1 by (simp add: init_text_encoders_def Let_def cong: if_cong option.case_cong)
  have 3: "init_category ctor (a\<lparr> category_embed_dim := d \<rparr>) e2 = init_category ctor a e2"
    for e2 using assms(2) by (simp add: init_category_def cong: if_cong)
  have 4: "init_pooling ctor (a\<lparr> category_embed_dim := d \<rparr>) e3 = init_pooling ctor a e3"
    for e3 by (simp add: init_pooling_def cong: if_cong)
  have eq: "init ctor iw cfg (a\<lparr> category_embed_dim := d \<rparr>) = init ctor iw cfg a"
    by (simp add: init_def 1 2 3 4)
  have "self_category_embedding e
          = Some (EmbeddingPretrained rows cols (category_pad_token_id a))
      \<and> self_category_dense_layer e
          = Some (Sequential [Linear (Some cols) (embed_dim e), ReLU])"
    if e: "init ctor iw cfg a = Inr e" for e
    using init_category_modules[OF e assms(1)] assms(2) by (auto simp: embed_dim_def)
  with eq show ?thesis by blast
qed

theorem pretrained_category_embed_overrides_dim_witness:
  "init torch_ctor torch_init_weights roberta_base (pretrained_args\<lparr> category_embed_dim := Some 999 \<rparr>)
     = init torch_ctor torch_init_weights roberta_base pretrained_args
   \<and> (\<exists>e. init torch_ctor torch_init_weights roberta_base pretrained_args = Inr e
        \<and> self_category_dense_layer e = Some (Sequential [Linear (Some 100) 768, ReLU]))"
proof -
  have c: "use_category pretrained_args" "category_embed pretrained_args = Some (20, 100)"
    by (simp_all add: pretrained_args_def)
  obtain e where e: "init torch_ctor torch_init_weights roberta_base pretrained_args = Inr e"
    by (simp add: init_defs roberta_base_def pretrained_args_def)
  have "Some (embed_dim e) = Some 768"
    using init_embed_dim[OF e] by (simp add: pretrained_args_def roberta_base_def)
  with pretrained_category_embed_overrides_dim[OF c, of torch_ctor torch_init_weights
      roberta_base "Some 999"] e
  show ?thesis by simp
qed

text \<open>
  C9. From the same framework state, an encoder without \<^verbatim>\<open>use_sapo\<close> returns the same on
  any two values of \<^verbatim>\<open>sapo_encoding\<close> and \<^verbatim>\<open>sapo_attn_mask\<close>, and an encoder without
  \<^verbatim>\<open>use_category\<close> returns the same on any two values of \<^verbatim>\<open>category_encoding\<close>, over any
  framework.
\<close>

theorem inactive_inputs_do_not_interfere:
  "(\<not> self_use_sapo e \<longrightarrow>
      forward fw e title_encoding title_attn_mask sapo_encoding sapo_attn_mask
        category_encoding s
      = forward fw e title_encoding title_attn_mask sapo_encoding' sapo_attn_mask'
          category_encoding s)
   \<and> (\<not> self_use_category e \<longrightarrow>
      forward fw e title_encoding title_attn_mask sapo_encoding sapo_attn_mask
        category_encoding s
      = forward fw e title_encoding title_attn_mask sapo_encoding sapo_attn_mask
          category_encoding' s)"
  by (simp add: forward_def collect_news_info_def)

theorem inactive_inputs_do_not_interfere_witness:
  "forward shape_fw title_only_encoder [2, 5] [2, 5] (Some [3, 8]) (Some [7]) (Some [2]) ()
     = forward shape_fw title_only_encoder [2, 5] [2, 5] None None (Some [2]) ()
   \<and> forward shape_fw title_only_encoder [2, 5] [2, 5] None None (Some [4, 4]) ()
     = forward shape_fw title_only_encoder [2, 5] [2, 5] None None None ()"
  using inactive_inputs_do_not_interfere[of title_only_encoder shape_fw "[2, 5]" "[2, 5]"
      "Some [3, 8]" "Some [7]" "Some [2]" "()" None None None]
    inactive_inputs_do_not_interfere[of title_only_encoder shape_fw "[2, 5]" "[2, 5]"
      None None "Some [4, 4]" "()" None None None]
  by (simp add: title_only_encoder_def)

end
